theory Spec2Isabelle
  imports Complex_Main "HOL-Library.Sublist"
begin

section \<open>The llama.cpp model adapter (modules/llamacpp\_model.py)\<close>

text \<open>
  A shallow embedding of \<^verbatim>\<open>src/modules/llamacpp_model.py\<close>: the choice of the
  engine module, the parsing of the cache capacity, the end-of-sequence logits processor,
  the generation request with its truncation of the prompt, the loop over the completion
  chunks, the streaming wrapper and the finalizer of the model handle.

  Python values are modelled as follows. A \<^verbatim>\<open>str\<close> is a \<open>string\<close>, a \<^verbatim>\<open>bytes\<close> value a
  list of octets, an \<^verbatim>\<open>int\<close> an \<open>int\<close>. An exception is a value of the type \<open>error\<close>,
  and a function that may raise returns \<open>error + 'a\<close> with \<open>Inl\<close> for the exception.
  What the file takes from other modules (the engine packages, the format detector, the
  prompt-length policy, the codecs) is a parameter of the model.
\<close>

datatype error =
    ValueError
  | IndexError
  | AttributeError
  | UnicodeDecodeError

subsection \<open>The engine modules and their resolution (lines 14 to 40)\<close>

text \<open>
  The four engine packages the file may import. \<open>Pkg_llama_cpp\<close> is the CPU build for
  the GGUF format, \<open>Pkg_llama_cpp_ggml\<close> the CPU build for the older GGML format,
  \<open>Pkg_llama_cpp_cuda\<close> and \<open>Pkg_llama_cpp_ggml_cuda\<close> are their CUDA builds.
\<close>

datatype package =
    Pkg_llama_cpp
  | Pkg_llama_cpp_ggml
  | Pkg_llama_cpp_cuda
  | Pkg_llama_cpp_ggml_cuda

datatype format_family = Modern | Legacy

fun family_of :: "package \<Rightarrow> format_family" where
  "family_of Pkg_llama_cpp = Modern"
| "family_of Pkg_llama_cpp_ggml = Legacy"
| "family_of Pkg_llama_cpp_cuda = Modern"
| "family_of Pkg_llama_cpp_ggml_cuda = Legacy"

text \<open>
  What the interpreter finds when the file is imported: which of the optional packages
  can be imported, and what torch reports. \<^verbatim>\<open>import llama_cpp\<close> itself is not optional:
  without it the file does not load at all, so it is no field here.
\<close>

record runtime =
  ggml_importable :: bool
  cuda_is_available :: bool
  version_hip :: bool
  cuda_importable :: bool
  ggml_cuda_importable :: bool

text \<open>The four module-level names after lines 14 to 32 have run.\<close>

record globals =
  llama_cpp :: package
  llama_cpp_ggml :: package
  llama_cpp_cuda :: "package option"
  llama_cpp_ggml_cuda :: "package option"

definition load_modules :: "runtime \<Rightarrow> globals" where
  "load_modules rt =
     (let ggml = (if ggml_importable rt then Pkg_llama_cpp_ggml else Pkg_llama_cpp);
          cuda = (if cuda_is_available rt \<and> \<not> version_hip rt
                  then (if cuda_importable rt then Some Pkg_llama_cpp_cuda else None)
                  else None);
          ggml_cuda = (if cuda_is_available rt \<and> \<not> version_hip rt
                       then (if ggml_cuda_importable rt then Some Pkg_llama_cpp_ggml_cuda
                             else cuda)
                       else None)
      in \<lparr>llama_cpp = Pkg_llama_cpp, llama_cpp_ggml = ggml,
          llama_cpp_cuda = cuda, llama_cpp_ggml_cuda = ggml_cuda\<rparr>)"

text \<open>
  \<^verbatim>\<open>llama_cpp_lib(model_file=None)\<close>. \<open>cpu\<close> is \<^verbatim>\<open>shared.args.cpu\<close>, \<open>is_gguf\<close> the format
  detector of \<^verbatim>\<open>modules.utils\<close>, applied only when a model file is given. The result is
  an option because two of the module-level names may hold \<^verbatim>\<open>None\<close>.
\<close>

definition llama_cpp_lib ::
  "globals \<Rightarrow> bool \<Rightarrow> ('f \<Rightarrow> bool) \<Rightarrow> 'f option \<Rightarrow> package option" where
  "llama_cpp_lib g cpu is_gguf model_file =
     (let gguf_model = (case model_file of Some f \<Rightarrow> is_gguf f | None \<Rightarrow> True)
      in if cpu \<or> llama_cpp_cuda g = None
         then Some (if gguf_model then llama_cpp g else llama_cpp_ggml g)
         else (if gguf_model then llama_cpp_cuda g else llama_cpp_ggml_cuda g))"

text \<open>
  The resolution table as the specification words it, for comparison with the code.
  Its first argument says whether accelerated hardware is available and not disabled,
  its second the format family of the model file.
\<close>

definition accelerated_enabled :: "runtime \<Rightarrow> bool \<Rightarrow> bool" where
  "accelerated_enabled rt cpu = (cuda_is_available rt \<and> \<not> version_hip rt \<and> \<not> cpu)"

definition spec_resolution_table :: "runtime \<Rightarrow> bool \<Rightarrow> format_family \<Rightarrow> package" where
  "spec_resolution_table rt acc fam =
     (case (acc, fam) of
        (False, Modern) \<Rightarrow> Pkg_llama_cpp
      | (False, Legacy) \<Rightarrow> Pkg_llama_cpp_ggml
      | (True, Modern) \<Rightarrow>
          (if cuda_importable rt then Pkg_llama_cpp_cuda else Pkg_llama_cpp)
      | (True, Legacy) \<Rightarrow>
          (if ggml_cuda_importable rt then Pkg_llama_cpp_ggml_cuda
           else if cuda_importable rt then Pkg_llama_cpp_cuda
           else Pkg_llama_cpp_ggml))"

subsection \<open>The cache capacity (lines 62 to 69 of \<^verbatim>\<open>from_pretrained\<close>)\<close>

text \<open>
  Python's \<^verbatim>\<open>sub in s\<close> on strings, \<^verbatim>\<open>re.sub('[a-zA-Z]', '', s)\<close>, \<^verbatim>\<open>str(n)\<close> and
  \<^verbatim>\<open>int(s)\<close> for an integer in base 10. Strings are ASCII here: the digits and the
  whitespace of Unicode beyond ASCII, which \<^verbatim>\<open>int\<close> also accepts, are not modelled, and
  neither is the limit on the number of digits of later interpreters.
\<close>

fun str_contains :: "string \<Rightarrow> string \<Rightarrow> bool" where
  "str_contains sub [] = (sub = [])"
| "str_contains sub (c # cs) = (prefix sub (c # cs) \<or> str_contains sub cs)"

definition ascii_letter :: "char \<Rightarrow> bool" where
  "ascii_letter c =
     (let n = (of_char c :: nat) in (65 \<le> n \<and> n \<le> 90) \<or> (97 \<le> n \<and> n \<le> 122))"

definition re_sub_letters :: "string \<Rightarrow> string" where
  "re_sub_letters s = filter (\<lambda>c. \<not> ascii_letter c) s"

definition is_digit :: "char \<Rightarrow> bool" where
  "is_digit c = (let n = (of_char c :: nat) in 48 \<le> n \<and> n \<le> 57)"

definition digit_val :: "char \<Rightarrow> nat" where
  "digit_val c = of_char c - 48"

definition digit_char :: "nat \<Rightarrow> char" where
  "digit_char d = char_of (48 + d)"

text \<open>
  The whitespace \<^verbatim>\<open>int\<close> strips from an ASCII string: tab, line feed, vertical tab, form
  feed, carriage return and the space.
\<close>

definition is_space :: "char \<Rightarrow> bool" where
  "is_space c = (let n = (of_char c :: nat) in (9 \<le> n \<and> n \<le> 13) \<or> n = 32)"

definition strip :: "string \<Rightarrow> string" where
  "strip s = rev (dropWhile is_space (rev (dropWhile is_space s)))"

fun str_nat :: "nat \<Rightarrow> string" where
  "str_nat n =
     (if n < 10 then [digit_char n] else str_nat (n div 10) @ [digit_char (n mod 10)])"

definition py_str :: "int \<Rightarrow> string" where
  "py_str i = (if i < 0 then CHR ''-'' # str_nat (nat (- i)) else str_nat (nat i))"

text \<open>
  The digits of an integer literal after its first digit: digits, each optionally
  preceded by one underscore. \<open>acc\<close> is the value read so far.
\<close>

fun digits_value :: "nat \<Rightarrow> string \<Rightarrow> error + nat" where
  "digits_value acc [] = Inr acc"
| "digits_value acc (c # cs) =
     (if is_digit c then digits_value (acc * 10 + digit_val c) cs
      else if c = CHR ''_'' then
        (case cs of
           [] \<Rightarrow> Inl ValueError
         | d # ds \<Rightarrow>
             if is_digit d then digits_value (acc * 10 + digit_val d) ds
             else Inl ValueError)
      else Inl ValueError)"

definition parse_decimal :: "string \<Rightarrow> error + nat" where
  "parse_decimal s =
     (case s of
        [] \<Rightarrow> Inl ValueError
      | c # cs \<Rightarrow> if is_digit c then digits_value (digit_val c) cs else Inl ValueError)"

definition py_int :: "string \<Rightarrow> error + int" where
  "py_int s =
     (let t = strip s in
      case t of
        [] \<Rightarrow> Inl ValueError
      | c # r \<Rightarrow>
          if c = CHR ''-'' then map_sum id (\<lambda>n. - int n) (parse_decimal r)
          else if c = CHR ''+'' then map_sum id int (parse_decimal r)
          else map_sum id int (parse_decimal t))"

text \<open>
  The value of \<^verbatim>\<open>cache_capacity\<close> after lines 62 to 69, from \<^verbatim>\<open>shared.args.cache_capacity\<close>
  (\<open>None\<close> when the option was not given).
\<close>

definition cache_capacity :: "string option \<Rightarrow> error + int" where
  "cache_capacity arg =
     (case arg of
        None \<Rightarrow> Inr 0
      | Some s \<Rightarrow>
          if str_contains ''GiB'' s
          then map_sum id (\<lambda>n. n * 1000 * 1000 * 1000) (py_int (re_sub_letters s))
          else if str_contains ''MiB'' s
          then map_sum id (\<lambda>n. n * 1000 * 1000) (py_int (re_sub_letters s))
          else py_int s)"

subsection \<open>The end-of-sequence logits processor (lines 43 to 45)\<close>

text \<open>
  A Python float is a real number, one of the two infinities or not a number; only the
  constant \<^verbatim>\<open>-float('inf')\<close> is computed here. The logits vector is a mutable object, and
  the processor returns the object it was given: objects live in a store, a map from
  references to their contents, and the processor takes and returns the store.
  Writing at an index follows Python: a negative index counts from the end, and an
  index outside the vector raises \<^verbatim>\<open>IndexError\<close> and writes nothing.
\<close>

datatype pyfloat = Finite real | PosInf | NegInf | NaN

fun float_neg :: "pyfloat \<Rightarrow> pyfloat" where
  "float_neg (Finite x) = Finite (- x)"
| "float_neg PosInf = NegInf"
| "float_neg NegInf = PosInf"
| "float_neg NaN = NaN"

type_synonym ref = nat

type_synonym store = "ref \<Rightarrow> pyfloat list"

type_synonym token = int

definition py_index :: "nat \<Rightarrow> int \<Rightarrow> error + nat" where
  "py_index n i =
     (let j = (if i < 0 then i + int n else i)
      in if 0 \<le> j \<and> j < int n then Inr (nat j) else Inl IndexError)"

definition ban_eos_logits_processor ::
  "int \<Rightarrow> token list \<Rightarrow> ref \<Rightarrow> store \<Rightarrow> store \<times> (error + ref)" where
  "ban_eos_logits_processor eos_token input_ids logits st =
     (case py_index (length (st logits)) eos_token of
        Inl e \<Rightarrow> (st, Inl e)
      | Inr j \<Rightarrow> (st(logits := (st logits)[j := float_neg PosInf]), Inr logits))"

subsection \<open>The generation request (lines 117 to 143)\<close>

type_synonym bytes = "nat list"

datatype text_or_bytes = Str string | Bytes bytes

type_synonym logits_processor = "token list \<Rightarrow> ref \<Rightarrow> store \<Rightarrow> store \<times> (error + ref)"

text \<open>
  A \<^verbatim>\<open>LogitsProcessorList\<close> object: the package whose class built it, and the
  processors it holds.
\<close>

datatype logits_processor_list = LogitsProcessorList package "logits_processor list"

text \<open>One chunk of the completion stream; the loop reads \<^verbatim>\<open>chunk['choices'][0]['text']\<close>.\<close>

record choice =
  choice_text :: string

record completion_chunk =
  choices :: "choice list"

text \<open>The keyword arguments of \<^verbatim>\<open>create_completion\<close>, as lines 128 to 143 pass them.\<close>

record completion_args =
  prompt :: string
  max_tokens :: int
  temperature :: real
  top_p :: real
  top_k :: int
  repeat_penalty :: real
  tfs_z :: real
  mirostat_mode :: int
  mirostat_tau :: real
  mirostat_eta :: real
  stream :: bool
  logits_processor :: "logits_processor_list option"

text \<open>
  The \<^verbatim>\<open>state\<close> dictionary of a request, with the keys \<^verbatim>\<open>generate\<close> reads. The policy
  \<^verbatim>\<open>get_max_prompt_length\<close> reads more of it; it is a parameter below.
\<close>

record generation_state =
  st_max_new_tokens :: int
  st_temperature :: real
  st_top_p :: real
  st_top_k :: int
  st_repetition_penalty :: real
  st_tfs :: real
  st_mirostat_mode :: int
  st_mirostat_tau :: real
  st_mirostat_eta :: real
  st_ban_eos_token :: bool
  st_truncation_length :: int

text \<open>
  The engine's model object (\<^verbatim>\<open>Llama\<close>): the package whose class built it, its
  tokenizer, its end-of-sequence token, its completion stream (the chunks it yields for
  the given arguments, a finite list), and how often its \<^verbatim>\<open>__del__\<close> has been called.
\<close>

record llama =
  built_by :: package
  tokenize :: "bytes \<Rightarrow> token list"
  detokenize :: "token list \<Rightarrow> bytes"
  token_eos :: int
  create_completion :: "completion_args \<Rightarrow> completion_chunk list"
  del_calls :: nat

text \<open>
  What \<^verbatim>\<open>generate\<close> reads from outside the class: the module-level names, the CPU flag,
  the codecs \<^verbatim>\<open>str.encode\<close> and \<^verbatim>\<open>bytes.decode\<close> (UTF-8), the prompt-length policy and
  the format detector (a model file is named by its path).
\<close>

record environment =
  modules :: globals
  args_cpu :: bool
  str_encode :: "string \<Rightarrow> bytes"
  bytes_decode :: "bytes \<Rightarrow> error + string"
  get_max_prompt_length :: "generation_state \<Rightarrow> int"
  is_gguf :: "string \<Rightarrow> bool"

text \<open>The object \<^verbatim>\<open>LlamaCppModel\<close>: \<open>model\<close> is \<open>None\<close> until \<^verbatim>\<open>from_pretrained\<close> sets it.\<close>

record LlamaCppModel =
  initialized :: bool
  model :: "llama option"

definition get_model :: "LlamaCppModel \<Rightarrow> error + llama" where
  "get_model self = (case model self of None \<Rightarrow> Inl AttributeError | Some m \<Rightarrow> Inr m)"

definition bind_err :: "error + 'a \<Rightarrow> ('a \<Rightarrow> error + 'b) \<Rightarrow> error + 'b" where
  "bind_err r f = (case r of Inl e \<Rightarrow> Inl e | Inr x \<Rightarrow> f x)"

definition encode :: "environment \<Rightarrow> LlamaCppModel \<Rightarrow> text_or_bytes \<Rightarrow> error + token list" where
  "encode env self string =
     (let b = (case string of Str s \<Rightarrow> str_encode env s | Bytes b \<Rightarrow> b)
      in bind_err (get_model self) (\<lambda>m. Inr (tokenize m b)))"

definition decode :: "LlamaCppModel \<Rightarrow> token list \<Rightarrow> error + bytes" where
  "decode self tokens = bind_err (get_model self) (\<lambda>m. Inr (detokenize m tokens))"

text \<open>Python's \<^verbatim>\<open>xs[i:]\<close>, and line 125, \<^verbatim>\<open>prompt[-get_max_prompt_length(state):]\<close>.\<close>

definition py_slice_from :: "int \<Rightarrow> 'a list \<Rightarrow> 'a list" where
  "py_slice_from i xs =
     (let n = int (length xs);
          j = (if i < 0 then max (i + n) 0 else min i n)
      in drop (nat j) xs)"

definition truncate_prompt :: "int \<Rightarrow> token list \<Rightarrow> token list" where
  "truncate_prompt max_len toks = py_slice_from (- max_len) toks"

text \<open>
  Lines 119 to 143: the model object and the arguments \<^verbatim>\<open>create_completion\<close> is called
  with, or the exception raised before the call.
\<close>

definition completion_request ::
  "environment \<Rightarrow> LlamaCppModel \<Rightarrow> text_or_bytes \<Rightarrow> generation_state
     \<Rightarrow> error + (llama \<times> completion_args)" where
  "completion_request env self prompt0 state =
     (case llama_cpp_lib (modules env) (args_cpu env) (is_gguf env) None of
        None \<Rightarrow> Inl AttributeError
      | Some lib \<Rightarrow>
     bind_err (case prompt0 of Str s \<Rightarrow> Inr s | Bytes b \<Rightarrow> bytes_decode env b) (\<lambda>prompt1.
     bind_err (encode env self (Str prompt1)) (\<lambda>toks.
     bind_err (decode self (truncate_prompt (get_max_prompt_length env state) toks)) (\<lambda>b.
     bind_err (bytes_decode env b) (\<lambda>prompt2.
     bind_err (get_model self) (\<lambda>m.
       Inr (m,
         \<lparr>prompt = prompt2,
          max_tokens = st_max_new_tokens state,
          temperature = st_temperature state,
          top_p = st_top_p state,
          top_k = st_top_k state,
          repeat_penalty = st_repetition_penalty state,
          tfs_z = st_tfs state,
          mirostat_mode = st_mirostat_mode state,
          mirostat_tau = st_mirostat_tau state,
          mirostat_eta = st_mirostat_eta state,
          stream = True,
          logits_processor =
            (if st_ban_eos_token state
             then Some (LogitsProcessorList lib [ban_eos_logits_processor (token_eos m)])
             else None)\<rparr>)))))))"

subsection \<open>The loop over the completion chunks (lines 145 to 154)\<close>

text \<open>
  \<open>stop_everything i\<close> is the value of \<^verbatim>\<open>shared.stop_everything\<close> when the loop reads it
  for the chunk at position \<open>i\<close> (from 0): another thread sets the flag, so the loop sees
  a sequence of values. The callback acts on a state of its own, \<open>'s\<close>; the loop returns
  that state with the result, since the calls made before an exception stay made.
\<close>

definition chunk_text :: "completion_chunk \<Rightarrow> error + string" where
  "chunk_text c = (case choices c of [] \<Rightarrow> Inl IndexError | ch # _ \<Rightarrow> Inr (choice_text ch))"

fun generate_loop ::
  "(nat \<Rightarrow> bool) \<Rightarrow> (string \<Rightarrow> 's \<Rightarrow> 's) option \<Rightarrow> nat \<Rightarrow> completion_chunk list
     \<Rightarrow> string \<Rightarrow> 's \<Rightarrow> 's \<times> (error + string)" where
  "generate_loop stop_everything callback i [] output s = (s, Inr output)"
| "generate_loop stop_everything callback i (completion_chunk # rest) output s =
     (if stop_everything i then (s, Inr output)
      else case chunk_text completion_chunk of
             Inl e \<Rightarrow> (s, Inl e)
           | Inr t \<Rightarrow>
               generate_loop stop_everything callback (Suc i) rest (output @ t)
                 (case callback of None \<Rightarrow> s | Some cb \<Rightarrow> cb t s))"

definition generate ::
  "environment \<Rightarrow> LlamaCppModel \<Rightarrow> text_or_bytes \<Rightarrow> generation_state
     \<Rightarrow> (string \<Rightarrow> 's \<Rightarrow> 's) option \<Rightarrow> (nat \<Rightarrow> bool) \<Rightarrow> 's \<Rightarrow> 's \<times> (error + string)" where
  "generate env self prompt0 state callback stop_everything s =
     (case completion_request env self prompt0 state of
        Inl e \<Rightarrow> (s, Inl e)
      | Inr (m, args) \<Rightarrow>
          generate_loop stop_everything callback 0 (create_completion m args) [] s)"

subsection \<open>The streaming wrapper (lines 156 to 161)\<close>

text \<open>
  Modelled from the spec: the class \<^verbatim>\<open>Iteratorize\<close> of \<^verbatim>\<open>modules/callbacks.py\<close>, which is
  not among the sources. The specification says that it turns the push-style call into
  a pull-style producer over a channel carrying the token chunks: the function is run
  with a callback that puts each value into a queue, and the iterator hands out the
  queued values in order. The threads are not modelled, only the sequence of values.
\<close>

definition queue_put :: "string \<Rightarrow> string list \<Rightarrow> string list" where
  "queue_put val q = q @ [val]"

definition Iteratorize ::
  "((string \<Rightarrow> string list \<Rightarrow> string list) option \<Rightarrow> string list
      \<Rightarrow> string list \<times> (error + string)) \<Rightarrow> string list" where
  "Iteratorize func = fst (func (Some queue_put) [])"

text \<open>The loop of lines 158 to 161: the list of the values it yields.\<close>

fun yield_replies :: "string \<Rightarrow> string list \<Rightarrow> string list" where
  "yield_replies reply [] = []"
| "yield_replies reply (token # rest) = (reply @ token) # yield_replies (reply @ token) rest"

definition generate_with_streaming ::
  "environment \<Rightarrow> LlamaCppModel \<Rightarrow> text_or_bytes \<Rightarrow> generation_state \<Rightarrow> (nat \<Rightarrow> bool)
     \<Rightarrow> string list" where
  "generate_with_streaming env self prompt0 state stop_everything =
     yield_replies []
       (Iteratorize (\<lambda>callback q. generate env self prompt0 state callback stop_everything q))"

subsection \<open>The model handle (lines 48 to 53)\<close>

definition LlamaCppModel_init :: "LlamaCppModel" where
  "LlamaCppModel_init = \<lparr>initialized = False, model = None\<rparr>"

text \<open>\<^verbatim>\<open>__del__\<close>: one call of the engine object's own \<^verbatim>\<open>__del__\<close>.\<close>

definition llama_del :: "llama \<Rightarrow> llama" where
  "llama_del m = m\<lparr>del_calls := Suc (del_calls m)\<rparr>"

definition LlamaCppModel_del :: "LlamaCppModel \<Rightarrow> error + LlamaCppModel" where
  "LlamaCppModel_del self =
     bind_err (get_model self) (\<lambda>m. Inr (self\<lparr>model := Some (llama_del m)\<rparr>))"

text \<open>\<open>n\<close> calls of \<^verbatim>\<open>__del__\<close> in a row, stopping at the first exception.\<close>

fun del_times :: "nat \<Rightarrow> LlamaCppModel \<Rightarrow> error + LlamaCppModel" where
  "del_times 0 self = Inr self"
| "del_times (Suc n) self = bind_err (LlamaCppModel_del self) (del_times n)"

definition teardown_count :: "LlamaCppModel \<Rightarrow> nat" where
  "teardown_count self = (case model self of None \<Rightarrow> 0 | Some m \<Rightarrow> del_calls m)"

subsection \<open>The engine's decoding loop\<close>

text \<open>
  Modelled from the spec: the completion call of the engine (the package \<^verbatim>\<open>llama_cpp\<close>,
  which is not among the sources). The specification says of it that it yields chunks
  with a text, that it accepts a list of step functions from the token ids so far and
  the logits to the logits, that the step is applied at every decoding step, and that
  the model stops on its own by emitting its end-of-sequence token, or else at
  \<^verbatim>\<open>max_tokens\<close>. A decoder is the network (the logits of the next token, given the
  tokens so far), the sampler, the text of a token and the end-of-sequence token.
  At each step the logits are computed, put into a fresh store, passed through
  the processors in order, and a token is sampled from the result; the stream ends
  when that token is the end-of-sequence token or \<^verbatim>\<open>max_tokens\<close> tokens have been
  yielded. An exception of a processor, which would end the call, ends the stream here.
\<close>

record decoder =
  prompt_tokens :: "string \<Rightarrow> token list"
  eval_logits :: "token list \<Rightarrow> pyfloat list"
  sample_token :: "pyfloat list \<Rightarrow> int"
  token_piece :: "int \<Rightarrow> string"
  eos_id :: int

fun run_list ::
  "logits_processor list \<Rightarrow> token list \<Rightarrow> ref \<Rightarrow> store \<Rightarrow> error + pyfloat list" where
  "run_list [] input_ids scores st = Inr (st scores)"
| "run_list (processor # rest) input_ids scores st =
     (case processor input_ids scores st of
        (st', Inl e) \<Rightarrow> Inl e
      | (st', Inr scores') \<Rightarrow> run_list rest input_ids scores' st')"

definition run_processors ::
  "logits_processor_list option \<Rightarrow> token list \<Rightarrow> pyfloat list \<Rightarrow> error + pyfloat list" where
  "run_processors lp input_ids logits =
     (case lp of
        None \<Rightarrow> Inr logits
      | Some (LogitsProcessorList lib procs) \<Rightarrow> run_list procs input_ids 0 (\<lambda>r. logits))"

fun decode_stream ::
  "decoder \<Rightarrow> logits_processor_list option \<Rightarrow> nat \<Rightarrow> token list \<Rightarrow> completion_chunk list" where
  "decode_stream d lp 0 ids = []"
| "decode_stream d lp (Suc n) ids =
     (case run_processors lp ids (eval_logits d ids) of
        Inl e \<Rightarrow> []
      | Inr logits \<Rightarrow>
          (let tok = sample_token d logits
           in if tok = eos_id d then []
              else \<lparr>choices = [\<lparr>choice_text = token_piece d tok\<rparr>]\<rparr>
                     # decode_stream d lp n (ids @ [tok])))"

definition engine_completion :: "decoder \<Rightarrow> completion_args \<Rightarrow> completion_chunk list" where
  "engine_completion d args =
     decode_stream d (logits_processor args) (nat (max_tokens args))
       (prompt_tokens d (prompt args))"

text \<open>
  What the specification's guarantee rests on in the engine: the sampler never picks
  a token whose logit is negative infinity while another token is possible, and at
  every step the network offers, besides the end-of-sequence token (an index of its
  logits), some token whose logit is not negative infinity.
\<close>

definition never_samples_banned :: "decoder \<Rightarrow> bool" where
  "never_samples_banned d =
     (\<forall>logits. (\<exists>i < length logits. logits ! i \<noteq> NegInf) \<longrightarrow>
        0 \<le> sample_token d logits \<and> nat (sample_token d logits) < length logits
        \<and> logits ! nat (sample_token d logits) \<noteq> NegInf)"

definition offers_other_token :: "decoder \<Rightarrow> bool" where
  "offers_other_token d =
     (0 \<le> eos_id d \<and>
      (\<forall>ids. nat (eos_id d) < length (eval_logits d ids)
         \<and> (\<exists>i < length (eval_logits d ids).
               i \<noteq> nat (eos_id d) \<and> eval_logits d ids ! i \<noteq> NegInf)))"

subsection \<open>Notions used to state the properties\<close>

text \<open>
  The text of a chunk (empty when the chunk has no choice), the effect of calling the
  callback once for each text of a list, in order, and the positions of a sequence.
\<close>

definition text_of :: "completion_chunk \<Rightarrow> string" where
  "text_of c = (case chunk_text c of Inl e \<Rightarrow> [] | Inr t \<Rightarrow> t)"

definition run_callback :: "(string \<Rightarrow> 's \<Rightarrow> 's) option \<Rightarrow> string list \<Rightarrow> 's \<Rightarrow> 's" where
  "run_callback callback texts s = (case callback of None \<Rightarrow> s | Some cb \<Rightarrow> fold cb texts s)"

subsection \<open>Sample values for the examples\<close>

text \<open>
  A machine without CUDA and without the optional packages, and a machine with all of
  them. The sample detector goes by the file name. The sample codec is ASCII. The
  sample policy is the difference of two settings of the request. The sample engine
  has one token per octet and streams the prompt back, one character per chunk.
\<close>

definition cpu_only_runtime :: runtime where
  "cpu_only_runtime =
     \<lparr>ggml_importable = False, cuda_is_available = False, version_hip = False,
      cuda_importable = False, ggml_cuda_importable = False\<rparr>"

definition full_runtime :: runtime where
  "full_runtime =
     \<lparr>ggml_importable = True, cuda_is_available = True, version_hip = False,
      cuda_importable = True, ggml_cuda_importable = True\<rparr>"

definition sample_is_gguf :: "string \<Rightarrow> bool" where
  "sample_is_gguf path = prefix (rev ''.gguf'') (rev path)"

definition ascii_encode :: "string \<Rightarrow> bytes" where
  "ascii_encode s = map of_char s"

definition ascii_decode :: "bytes \<Rightarrow> error + string" where
  "ascii_decode b =
     (if list_all (\<lambda>x. x < 128) b then Inr (map char_of b) else Inl UnicodeDecodeError)"

definition sample_policy :: "generation_state \<Rightarrow> int" where
  "sample_policy state = st_truncation_length state - st_max_new_tokens state"

definition sample_env :: environment where
  "sample_env =
     \<lparr>modules = load_modules full_runtime, args_cpu = False,
      str_encode = ascii_encode, bytes_decode = ascii_decode,
      get_max_prompt_length = sample_policy, is_gguf = sample_is_gguf\<rparr>"

definition echo_chunk :: "char \<Rightarrow> completion_chunk" where
  "echo_chunk c = \<lparr>choices = [\<lparr>choice_text = [c]\<rparr>]\<rparr>"

definition sample_llama :: llama where
  "sample_llama =
     \<lparr>built_by = Pkg_llama_cpp_ggml_cuda, tokenize = map int, detokenize = map nat,
      token_eos = 2, create_completion = (\<lambda>args. map echo_chunk (prompt args)),
      del_calls = 0\<rparr>"

definition sample_handle :: LlamaCppModel where
  "sample_handle = LlamaCppModel_init\<lparr>model := Some sample_llama\<rparr>"

definition sample_state :: "bool \<Rightarrow> int \<Rightarrow> generation_state" where
  "sample_state ban max_len =
     \<lparr>st_max_new_tokens = 200, st_temperature = 0.7, st_top_p = 0.9, st_top_k = 20,
      st_repetition_penalty = 1.15, st_tfs = 1, st_mirostat_mode = 0,
      st_mirostat_tau = 5, st_mirostat_eta = 0.1, st_ban_eos_token = ban,
      st_truncation_length = 200 + max_len\<rparr>"

text \<open>
  Two courses of the cancellation flag: never set, and set once \<open>k\<close> chunks have been
  consumed (and left set).
\<close>

definition never_stop :: "nat \<Rightarrow> bool" where
  "never_stop i = False"

definition stop_after :: "nat \<Rightarrow> nat \<Rightarrow> bool" where
  "stop_after k i = (k \<le> i)"

text \<open>
  A stub engine that would stop at once: three tokens, the last of them the
  end-of-sequence token and the most likely one at every step. Its sampler takes the
  token with the highest id among those whose logit is not negative infinity.
\<close>

definition stub_sample :: "pyfloat list \<Rightarrow> int" where
  "stub_sample logits =
     (case filter (\<lambda>i. logits ! i \<noteq> NegInf) (rev [0..<length logits]) of
        [] \<Rightarrow> 0
      | i # rest \<Rightarrow> int i)"

definition stub_decoder :: decoder where
  "stub_decoder =
     \<lparr>prompt_tokens = map of_char,
      eval_logits = (\<lambda>ids. [Finite 1, Finite 2, Finite 5]),
      sample_token = stub_sample,
      token_piece = (\<lambda>tok. if tok = 0 then ''a'' else ''b''),
      eos_id = 2\<rparr>"

definition stub_llama :: llama where
  "stub_llama =
     \<lparr>built_by = Pkg_llama_cpp_cuda, tokenize = map int, detokenize = map nat,
      token_eos = 2, create_completion = engine_completion stub_decoder,
      del_calls = 0\<rparr>"

definition stub_handle :: LlamaCppModel where
  "stub_handle = LlamaCppModel_init\<lparr>model := Some stub_llama\<rparr>"

section \<open>Properties\<close>

subsection \<open>Resolution of the engine module\<close>

text \<open>
  Claim C3, as amended. For every machine, CPU flag, detector and model file,
  \<^verbatim>\<open>llama_cpp_lib\<close> returns a package (never \<^verbatim>\<open>None\<close>), and which one is a function of
  the inputs alone. Without accelerated hardware (or with the CPU flag) a GGUF file gets
  the CPU build, and an older file gets the CPU build for the older format, or the
  plain CPU build when that package could not be imported. With accelerated hardware a
  GGUF file gets the CUDA build, or the CPU build when the CUDA package could not be
  imported; an older file gets the CUDA build for the older format, or the CUDA build
  when that package could not be imported, provided the CUDA package itself was
  imported, and otherwise what it gets without accelerated hardware. A call without
  a model file resolves as a GGUF file does.
\<close>

theorem llama_cpp_lib_resolution:
  "llama_cpp_lib (load_modules rt) cpu gguf (Some f) =
     Some (if accelerated_enabled rt cpu
           then (if gguf f
                 then (if cuda_importable rt then Pkg_llama_cpp_cuda else Pkg_llama_cpp)
                 else (if cuda_importable rt
                       then (if ggml_cuda_importable rt then Pkg_llama_cpp_ggml_cuda
                             else Pkg_llama_cpp_cuda)
                       else (if ggml_importable rt then Pkg_llama_cpp_ggml
                             else Pkg_llama_cpp)))
           else (if gguf f then Pkg_llama_cpp
                 else (if ggml_importable rt then Pkg_llama_cpp_ggml else Pkg_llama_cpp)))
   \<and> llama_cpp_lib (load_modules rt) cpu gguf None =
       Some (if accelerated_enabled rt cpu \<and> cuda_importable rt then Pkg_llama_cpp_cuda
             else Pkg_llama_cpp)"
  by (auto simp add: llama_cpp_lib_def load_modules_def accelerated_enabled_def Let_def)

text \<open>
  Claim C3, as stated, fails: on a machine without CUDA where the package for the older
  format cannot be imported, an older model file resolves to the plain CPU build
  (lines 16 to 19 bind the name \<^verbatim>\<open>llama_cpp_ggml\<close> to \<^verbatim>\<open>llama_cpp\<close>), where the table of
  the specification has the CPU build for the older format.
\<close>

theorem spec_table_counterexample:
  "llama_cpp_lib (load_modules cpu_only_runtime) False sample_is_gguf
       (Some ''llama-7b.ggmlv3.bin'') = Some Pkg_llama_cpp
   \<and> spec_resolution_table cpu_only_runtime (accelerated_enabled cpu_only_runtime False)
        (if sample_is_gguf ''llama-7b.ggmlv3.bin'' then Modern else Legacy)
     = Pkg_llama_cpp_ggml"
  by (simp add: llama_cpp_lib_def load_modules_def accelerated_enabled_def Let_def
      spec_resolution_table_def cpu_only_runtime_def sample_is_gguf_def)

subsection \<open>Parsing the cache capacity\<close>

text \<open>Decimal strings: \<^verbatim>\<open>int(str(i))\<close> is \<open>i\<close>, and \<^verbatim>\<open>str(i)\<close> has no letter.\<close>

lemma of_char_digit_char: "d < 10 \<Longrightarrow> (of_char (digit_char d) :: nat) = 48 + d"
  by (simp add: digit_char_def)

lemma is_digit_digit_char: "d < 10 \<Longrightarrow> is_digit (digit_char d)"
  by (simp add: is_digit_def of_char_digit_char)

lemma digit_val_digit_char: "d < 10 \<Longrightarrow> digit_val (digit_char d) = d"
  by (simp add: digit_val_def of_char_digit_char)

lemma is_digit_not_space: "is_digit c \<Longrightarrow> \<not> is_space c"
  by (auto simp add: is_digit_def is_space_def Let_def)

lemma is_digit_not_letter: "is_digit c \<Longrightarrow> \<not> ascii_letter c"
  by (auto simp add: is_digit_def ascii_letter_def Let_def)

lemma is_digit_not_sign: "is_digit c \<Longrightarrow> c \<noteq> CHR ''-'' \<and> c \<noteq> CHR ''+''"
  by (auto simp add: is_digit_def Let_def)

declare str_nat.simps [simp del]

lemma str_nat_digits: "list_all is_digit (str_nat n)"
proof (induction n rule: str_nat.induct)
  case (1 n)
  show ?case
  proof (cases "n < 10")
    case True
    then show ?thesis by (subst str_nat.simps) (simp add: is_digit_digit_char)
  next
    case False
    with 1 show ?thesis by (subst str_nat.simps) (simp add: is_digit_digit_char)
  qed
qed

lemma str_nat_nonempty: "str_nat n \<noteq> []"
  by (subst str_nat.simps) simp

lemma digits_value_all_digits:
  "list_all is_digit s \<Longrightarrow>
     digits_value acc s = Inr (foldl (\<lambda>a c. a * 10 + digit_val c) acc s)"
  by (induction s arbitrary: acc) simp_all

lemma foldl_str_nat: "foldl (\<lambda>a c. a * 10 + digit_val c) 0 (str_nat n) = n"
proof (induction n rule: str_nat.induct)
  case (1 n)
  show ?case
  proof (cases "n < 10")
    case True
    then show ?thesis by (subst str_nat.simps) (simp add: digit_val_digit_char)
  next
    case False
    with 1 show ?thesis by (subst str_nat.simps) (simp add: digit_val_digit_char)
  qed
qed

lemma parse_decimal_str_nat: "parse_decimal (str_nat n) = Inr n"
proof (cases "str_nat n")
  case Nil
  then show ?thesis by (simp add: str_nat_nonempty)
next
  case (Cons c cs)
  have d: "is_digit c" "list_all is_digit cs"
    using str_nat_digits [of n] Cons by simp_all
  have "foldl (\<lambda>a c. a * 10 + digit_val c) 0 (c # cs) = n"
    using foldl_str_nat [of n] Cons by simp
  then show ?thesis
    using d Cons by (simp add: parse_decimal_def digits_value_all_digits)
qed

lemma strip_no_space: "s \<noteq> [] \<Longrightarrow> \<not> is_space (hd s) \<Longrightarrow> \<not> is_space (last s) \<Longrightarrow> strip s = s"
proof -
  assume a: "s \<noteq> []" "\<not> is_space (hd s)" "\<not> is_space (last s)"
  then have "dropWhile is_space s = s" by (cases s) simp_all
  moreover have "dropWhile is_space (rev s) = rev s"
    using a by (cases "rev s") (simp_all add: hd_rev [symmetric])
  ultimately show ?thesis by (simp add: strip_def)
qed

lemma str_nat_ends: "is_digit (hd (str_nat n)) \<and> is_digit (last (str_nat n))"
  using str_nat_digits [of n] str_nat_nonempty [of n]
  by (metis list_all_iff hd_in_set last_in_set)

lemma py_str_chars: "c \<in> set (py_str i) \<Longrightarrow> is_digit c \<or> c = CHR ''-''"
  using str_nat_digits by (auto simp add: py_str_def list_all_iff split: if_splits)

lemma py_int_py_str: "py_int (py_str i) = Inr i"
proof (cases "i < 0")
  case True
  let ?s = "CHR ''-'' # str_nat (nat (- i))"
  have "strip ?s = ?s"
    using str_nat_ends [of "nat (- i)"] str_nat_nonempty [of "nat (- i)"]
    by (intro strip_no_space) (simp_all add: is_digit_not_space, simp add: is_space_def)
  then show ?thesis
    using True by (simp add: py_int_def py_str_def parse_decimal_str_nat)
next
  case False
  let ?s = "str_nat (nat i)"
  have s: "strip ?s = ?s"
    using str_nat_ends [of "nat i"] str_nat_nonempty [of "nat i"]
    by (intro strip_no_space) (simp_all add: is_digit_not_space)
  obtain c cs where cs: "?s = c # cs"
    using str_nat_nonempty [of "nat i"] by (cases ?s) auto
  then have "is_digit c" using str_nat_ends [of "nat i"] by simp
  then have "c \<noteq> CHR ''-''" "c \<noteq> CHR ''+''" by (simp_all add: is_digit_not_sign)
  then show ?thesis
    using False s cs parse_decimal_str_nat [of "nat i"]
    by (simp add: py_int_def py_str_def)
qed

lemma str_contains_subset: "str_contains sub s \<Longrightarrow> set sub \<subseteq> set s"
  by (induction s) (auto dest!: set_mono_prefix)

lemma str_contains_append: "str_contains sub (xs @ sub)"
proof (induction xs)
  case Nil
  show ?case by (cases sub) simp_all
next
  case (Cons x xs)
  then show ?case by simp
qed

lemma re_sub_letters_py_str: "re_sub_letters (py_str i @ unit) = py_str i @ re_sub_letters unit"
proof -
  have "\<not> ascii_letter (CHR ''-'')" by (simp add: ascii_letter_def)
  then have "\<forall>c \<in> set (py_str i). \<not> ascii_letter c"
    using py_str_chars [of _ i] is_digit_not_letter by blast
  then have "filter (\<lambda>c. \<not> ascii_letter c) (py_str i) = py_str i"
    by (simp add: filter_id_conv)
  then show ?thesis by (simp add: re_sub_letters_def)
qed

lemma no_unit_in_py_str:
  "\<not> is_digit c \<Longrightarrow> c \<noteq> CHR ''-'' \<Longrightarrow> c \<in> set sub \<Longrightarrow> c \<notin> set rest
     \<Longrightarrow> \<not> str_contains sub (py_str i @ rest)"
  using str_contains_subset [of sub "py_str i @ rest"] py_str_chars [of c i] by auto

text \<open>
  Claim C4. The multipliers are decimal: for every integer \<open>n\<close>, \<^verbatim>\<open>str(n) + "GiB"\<close>
  parses to \<open>n * 1000000000\<close>, \<^verbatim>\<open>str(n) + "MiB"\<close> to \<open>n * 1000000\<close> and \<^verbatim>\<open>str(n)\<close> to \<open>n\<close>;
  so \<^verbatim>\<open>"2GiB"\<close> gives 2000000000, \<^verbatim>\<open>"500MiB"\<close> gives 500000000 and \<^verbatim>\<open>"12345"\<close> gives 12345.
\<close>

theorem cache_capacity_decimal_multipliers:
  "cache_capacity (Some (py_str n @ ''GiB'')) = Inr (n * 1000000000)
   \<and> cache_capacity (Some (py_str n @ ''MiB'')) = Inr (n * 1000000)
   \<and> cache_capacity (Some (py_str n)) = Inr n
   \<and> cache_capacity (Some ''2GiB'') = Inr 2000000000
   \<and> cache_capacity (Some ''500MiB'') = Inr 500000000
   \<and> cache_capacity (Some ''12345'') = Inr 12345"
proof -
  have g: "cache_capacity (Some (py_str n @ ''GiB'')) = Inr (n * 1000000000)"
    using str_contains_append [of "''GiB''" "py_str n"]
    by (simp add: cache_capacity_def re_sub_letters_py_str py_int_py_str)
      (simp add: re_sub_letters_def ascii_letter_def py_int_py_str)
  have "\<not> str_contains ''GiB'' (py_str n @ ''MiB'')"
    by (rule no_unit_in_py_str [of "CHR ''G''"]) (simp_all add: is_digit_def)
  then have m: "cache_capacity (Some (py_str n @ ''MiB'')) = Inr (n * 1000000)"
    using str_contains_append [of "''MiB''" "py_str n"]
    by (simp add: cache_capacity_def re_sub_letters_py_str py_int_py_str)
      (simp add: re_sub_letters_def ascii_letter_def py_int_py_str)
  have "\<not> str_contains ''GiB'' (py_str n @ [])" "\<not> str_contains ''MiB'' (py_str n @ [])"
    by (rule no_unit_in_py_str [of "CHR ''B''"]; simp add: is_digit_def)+
  then have b: "cache_capacity (Some (py_str n)) = Inr n"
    by (simp add: cache_capacity_def py_int_py_str)
  have e1: "cache_capacity (Some ''2GiB'') = Inr 2000000000" by code_simp
  have e2: "cache_capacity (Some ''500MiB'') = Inr 500000000" by code_simp
  have e3: "cache_capacity (Some ''12345'') = Inr 12345" by code_simp
  from g m b e1 e2 e3 show ?thesis by simp
qed

text \<open>
  Claim C5 at the empty string: the option given as \<^verbatim>\<open>""\<close> is not \<^verbatim>\<open>None\<close>, holds neither
  unit, and \<^verbatim>\<open>int("")\<close> raises \<^verbatim>\<open>ValueError\<close>; only the absent option gives 0.
\<close>

theorem cache_capacity_empty_string:
  "cache_capacity (Some '''') = Inl ValueError \<and> cache_capacity None = Inr 0"
  by (simp add: cache_capacity_def py_int_def strip_def)

subsection \<open>The end-of-sequence logits processor\<close>

lemma py_index_range: "py_index n i = Inr j \<Longrightarrow> j < n"
  by (auto simp add: py_index_def Let_def split: if_splits)

text \<open>
  Claim C9. For every store, logits vector and end-of-sequence token, the processor
  leaves every entry of the vector other than the one the token indexes as it was,
  keeps the length of the vector and every other object of the store, and, when the
  token indexes the vector, returns the reference it was given (the vector is changed
  in place). When the token does not index the vector the call raises \<^verbatim>\<open>IndexError\<close> and
  changes nothing. The result does not depend on the token ids passed.
\<close>

theorem ban_eos_logits_processor_frame:
  "(\<forall>k < length (st logits). py_index (length (st logits)) eos_token \<noteq> Inr k \<longrightarrow>
       fst (ban_eos_logits_processor eos_token input_ids logits st) logits ! k = st logits ! k)
   \<and> length (fst (ban_eos_logits_processor eos_token input_ids logits st) logits)
       = length (st logits)
   \<and> (\<forall>r. r \<noteq> logits \<longrightarrow>
         fst (ban_eos_logits_processor eos_token input_ids logits st) r = st r)
   \<and> (\<forall>j. py_index (length (st logits)) eos_token = Inr j \<longrightarrow>
         snd (ban_eos_logits_processor eos_token input_ids logits st) = Inr logits)
   \<and> (py_index (length (st logits)) eos_token = Inl IndexError \<longrightarrow>
         ban_eos_logits_processor eos_token input_ids logits st = (st, Inl IndexError))
   \<and> ban_eos_logits_processor eos_token input_ids logits st
       = ban_eos_logits_processor eos_token other_ids logits st"
  by (auto simp add: ban_eos_logits_processor_def split: sum.splits)

theorem ban_eos_logits_processor_frame_witness:
  "fst (ban_eos_logits_processor 2 [5, 7] 0 (\<lambda>r. [Finite 1, Finite 2, Finite 3])) 0
     = [Finite 1, Finite 2, NegInf]
   \<and> fst (ban_eos_logits_processor 2 [5, 7] 0 (\<lambda>r. [Finite 1, Finite 2, Finite 3])) 0 ! 1
     = Finite 2
   \<and> snd (ban_eos_logits_processor 2 [5, 7] 0 (\<lambda>r. [Finite 1, Finite 2, Finite 3])) = Inr 0
   \<and> fst (ban_eos_logits_processor 2 [5, 7] 0 (\<lambda>r. [Finite 1, Finite 2, Finite 3])) 1
     = [Finite 1, Finite 2, Finite 3]
   \<and> snd (ban_eos_logits_processor 3 [5, 7] 0 (\<lambda>r. [Finite 1, Finite 2, Finite 3]))
     = Inl IndexError"
  using ban_eos_logits_processor_frame
    [of "\<lambda>r. [Finite 1, Finite 2, Finite 3]" 0 2 "[5, 7]" "[]"]
  by (simp add: ban_eos_logits_processor_def py_index_def)

subsection \<open>The generation request\<close>

lemmas sample_defs =
  completion_request_def bind_err_def sample_env_def sample_handle_def sample_llama_def
  sample_state_def sample_policy_def LlamaCppModel_init_def get_model_def encode_def
  decode_def ascii_encode_def ascii_decode_def truncate_prompt_def py_slice_from_def
  llama_cpp_lib_def load_modules_def full_runtime_def Let_def

text \<open>
  The sample request: the prompt \<^verbatim>\<open>"hello"\<close> with a maximal prompt length of 4 is sent as
  \<^verbatim>\<open>"ello"\<close>, and the sample engine streams it back in four chunks.
\<close>

lemma sample_request:
  "\<exists>a. completion_request sample_env sample_handle (Str ''hello'') (sample_state ban 4)
          = Inr (sample_llama, a)
       \<and> create_completion sample_llama a = map echo_chunk ''ello''"
  by (simp add: sample_defs char_of_def bit_Suc_0_iff)

lemma text_of_echo_chunk: "text_of (echo_chunk c) = [c]" "choices (echo_chunk c) \<noteq> []"
  by (simp_all add: text_of_def chunk_text_def echo_chunk_def)

lemma completion_request_logits_processor:
  assumes "completion_request env self p state = Inr (m, args)"
  shows "logits_processor args =
           (if st_ban_eos_token state
            then Some (LogitsProcessorList
                   (the (llama_cpp_lib (modules env) (args_cpu env) (is_gguf env) None))
                   [ban_eos_logits_processor (token_eos m)])
            else None)"
  using assms
  by (auto simp add: completion_request_def bind_err_def split: option.splits sum.splits)

lemma completion_request_max_tokens:
  assumes "completion_request env self p state = Inr (m, args)"
  shows "max_tokens args = st_max_new_tokens state"
  using assms
  by (auto simp add: completion_request_def bind_err_def split: option.splits sum.splits)

lemma generate_reaches_engine:
  assumes "completion_request env self p state = Inr (m, args)"
  shows "generate env self p state callback stop s
           = generate_loop stop callback 0 (create_completion m args) [] s"
  using assms by (simp add: generate_def)

text \<open>
  For a positive maximal length the truncation keeps the trailing tokens, at most that
  many.
\<close>

lemma truncate_prompt_trailing:
  "0 < n \<Longrightarrow> truncate_prompt n toks = drop (length toks - nat n) toks
     \<and> int (length (truncate_prompt n toks)) \<le> n"
  by (auto simp add: truncate_prompt_def py_slice_from_def Let_def max_def nat_diff_distrib' nat_add_distrib)

text \<open>
  Claim C2 at the maximal length 0: \<^verbatim>\<open>prompt[-0:]\<close> is \<^verbatim>\<open>prompt[0:]\<close>, the whole sequence, so
  nothing is dropped and the whole prompt is sent. With the maximal length 3 the same
  prompt is cut to its last three tokens.
\<close>

theorem truncate_prompt_zero:
  "truncate_prompt 0 [11, 22, 33] = [11, 22, 33]
   \<and> map_sum id (\<lambda>r. prompt (snd r))
        (completion_request sample_env sample_handle (Str ''hello'') (sample_state False 0))
       = Inr ''hello''
   \<and> map_sum id (\<lambda>r. prompt (snd r))
        (completion_request sample_env sample_handle (Str ''hello'') (sample_state False 3))
       = Inr ''llo''"
  by (simp add: sample_defs char_of_def bit_Suc_0_iff)

lemma llama_cpp_lib_None_modern:
  "\<exists>lib. llama_cpp_lib (load_modules rt) cpu gguf None = Some lib \<and> family_of lib = Modern"
  by (simp add: llama_cpp_lib_def load_modules_def Let_def)

lemma completion_request_lib:
  assumes "completion_request env self p state = Inr (m, args)"
    and "logits_processor args = Some (LogitsProcessorList lib procs)"
  shows "llama_cpp_lib (modules env) (args_cpu env) (is_gguf env) None = Some lib"
  using assms
  by (auto simp add: completion_request_def bind_err_def split: option.splits sum.splits if_splits)

subsection \<open>The loop over the completion chunks\<close>

text \<open>
  The loop consumes the chunks before the first position at which it reads the flag as
  set: it returns their texts concatenated, and has called the callback with each.
\<close>

lemma generate_loop_consumed:
  "K \<le> length cs \<Longrightarrow> (\<forall>k<K. \<not> stop (i + k)) \<Longrightarrow> (K < length cs \<longrightarrow> stop (i + K))
     \<Longrightarrow> (\<forall>c \<in> set (take K cs). choices c \<noteq> [])
     \<Longrightarrow> generate_loop stop callback i cs out s =
           (run_callback callback (map text_of (take K cs)) s,
            Inr (out @ concat (map text_of (take K cs))))"
proof (induction cs arbitrary: K i out s)
  case Nil
  then show ?case by (simp add: run_callback_def split: option.splits)
next
  case (Cons c cs)
  show ?case
  proof (cases K)
    case 0
    with Cons.prems show ?thesis by (simp add: run_callback_def split: option.splits)
  next
    case (Suc K')
    from Cons.prems Suc have ns: "\<not> stop i" by force
    from Cons.prems Suc have "choices c \<noteq> []" by simp
    then obtain t where t: "chunk_text c = Inr t" "text_of c = t"
      by (cases "choices c") (simp_all add: chunk_text_def text_of_def)
    have "generate_loop stop callback (Suc i) cs (out @ t)
            (case callback of None \<Rightarrow> s | Some cb \<Rightarrow> cb t s) =
          (run_callback callback (map text_of (take K' cs))
             (case callback of None \<Rightarrow> s | Some cb \<Rightarrow> cb t s),
           Inr ((out @ t) @ concat (map text_of (take K' cs))))"
    proof (rule Cons.IH)
      show "K' \<le> length cs" using Cons.prems Suc by simp
      show "\<forall>k<K'. \<not> stop (Suc i + k)"
      proof (intro allI impI)
        fix k assume "k < K'"
        then have "Suc k < K" using Suc by simp
        with Cons.prems(2) have "\<not> stop (i + Suc k)" by blast
        then show "\<not> stop (Suc i + k)" by simp
      qed
      show "K' < length cs \<longrightarrow> stop (Suc i + K')" using Cons.prems Suc by simp
      show "\<forall>c \<in> set (take K' cs). choices c \<noteq> []" using Cons.prems Suc by simp
    qed
    with ns t Suc show ?thesis
      by (simp add: run_callback_def split: option.splits)
  qed
qed

lemma generate_consumed:
  assumes "completion_request env self p state = Inr (m, args)"
    and "K \<le> length (create_completion m args)"
    and "\<forall>k<K. \<not> stop k"
    and "K < length (create_completion m args) \<longrightarrow> stop K"
    and "\<forall>c \<in> set (take K (create_completion m args)). choices c \<noteq> []"
  shows "generate env self p state callback stop s =
           (run_callback callback (map text_of (take K (create_completion m args))) s,
            Inr (concat (map text_of (take K (create_completion m args)))))"
  using assms generate_loop_consumed [of K "create_completion m args" stop 0 callback "[]" s]
  by (simp add: generate_def)

text \<open>
  Claim C1. For every request that reaches the engine, with the stream of chunks the
  engine returns for it: if the flag is never read as set (and every chunk has a
  choice), \<^verbatim>\<open>generate\<close> returns the texts of all chunks concatenated in order and has
  called the callback once for each chunk with its text; if the flag is set at the
  first chunk, it returns the empty string; if the flag is first read as set after
  \<open>K\<close> chunks, it returns the texts of those \<open>K\<close> chunks concatenated, and the callback
  has been called for exactly those.
\<close>

theorem generate_returns_consumed_chunks:
  assumes "completion_request env self p state = Inr (m, args)"
  shows "((\<forall>i < length (create_completion m args). \<not> stop i)
            \<and> (\<forall>c \<in> set (create_completion m args). choices c \<noteq> []) \<longrightarrow>
          generate env self p state callback stop s =
            (run_callback callback (map text_of (create_completion m args)) s,
             Inr (concat (map text_of (create_completion m args)))))
       \<and> (stop 0 \<longrightarrow> generate env self p state callback stop s = (s, Inr []))
       \<and> (\<forall>K. K < length (create_completion m args) \<and> (\<forall>i<K. \<not> stop i) \<and> stop K
              \<and> (\<forall>c \<in> set (take K (create_completion m args)). choices c \<noteq> []) \<longrightarrow>
            generate env self p state callback stop s =
              (run_callback callback (map text_of (take K (create_completion m args))) s,
               Inr (concat (map text_of (take K (create_completion m args))))))"
proof (intro conjI impI allI)
  assume a: "(\<forall>i < length (create_completion m args). \<not> stop i)
            \<and> (\<forall>c \<in> set (create_completion m args). choices c \<noteq> [])"
  show "generate env self p state callback stop s =
            (run_callback callback (map text_of (create_completion m args)) s,
             Inr (concat (map text_of (create_completion m args))))"
    using generate_consumed [OF assms, of "length (create_completion m args)" stop callback s] a
    by simp
next
  assume "stop 0"
  then show "generate env self p state callback stop s = (s, Inr [])"
    using generate_consumed [OF assms, of 0 stop callback s]
    by (simp add: run_callback_def split: option.splits)
next
  fix K
  assume "K < length (create_completion m args) \<and> (\<forall>i<K. \<not> stop i) \<and> stop K
              \<and> (\<forall>c \<in> set (take K (create_completion m args)). choices c \<noteq> [])"
  then show "generate env self p state callback stop s =
              (run_callback callback (map text_of (take K (create_completion m args))) s,
               Inr (concat (map text_of (take K (create_completion m args)))))"
    using generate_consumed [OF assms, of K stop callback s] by simp
qed

theorem generate_returns_consumed_chunks_witness:
  "generate sample_env sample_handle (Str ''hello'') (sample_state False 4)
       (Some queue_put) never_stop []
     = ([''e'', ''l'', ''l'', ''o''], Inr ''ello'')
   \<and> generate sample_env sample_handle (Str ''hello'') (sample_state False 4)
       (Some queue_put) (stop_after 0) []
     = ([], Inr [])
   \<and> generate sample_env sample_handle (Str ''hello'') (sample_state False 4)
       (Some queue_put) (stop_after 2) []
     = ([''e'', ''l''], Inr ''el'')"
proof -
  obtain a where a:
    "completion_request sample_env sample_handle (Str ''hello'') (sample_state False 4)
       = Inr (sample_llama, a)"
    and cs: "create_completion sample_llama a = map echo_chunk ''ello''"
    using sample_request [of False] by blast
  have 1: "generate sample_env sample_handle (Str ''hello'') (sample_state False 4)
       (Some queue_put) never_stop [] = ([''e'', ''l'', ''l'', ''o''], Inr ''ello'')"
    using generate_returns_consumed_chunks [OF a, of never_stop "Some queue_put" "[]"]
    by (simp add: cs never_stop_def text_of_echo_chunk run_callback_def queue_put_def)
  have 2: "generate sample_env sample_handle (Str ''hello'') (sample_state False 4)
       (Some queue_put) (stop_after 0) [] = ([], Inr [])"
    using generate_returns_consumed_chunks [OF a, of "stop_after 0" "Some queue_put" "[]"]
    by (simp add: stop_after_def)
  have "(2::nat) < length (create_completion sample_llama a) \<and> (\<forall>i<2. \<not> stop_after 2 i)
      \<and> stop_after 2 2
      \<and> (\<forall>c \<in> set (take 2 (create_completion sample_llama a)). choices c \<noteq> [])"
    by (simp add: cs stop_after_def text_of_echo_chunk)
  then have 3: "generate sample_env sample_handle (Str ''hello'') (sample_state False 4)
       (Some queue_put) (stop_after 2) [] = ([''e'', ''l''], Inr ''el'')"
    using generate_returns_consumed_chunks
      [OF a, of "stop_after 2" "Some queue_put" "[]", THEN conjunct2, THEN conjunct2,
       THEN spec, of 2]
    by (simp add: cs text_of_echo_chunk run_callback_def queue_put_def)
  from 1 2 3 show ?thesis by simp
qed

subsection \<open>The streaming wrapper\<close>

lemma yield_replies_length: "length (yield_replies reply toks) = length toks"
  by (induction toks arbitrary: reply) simp_all

lemma yield_replies_nth:
  "i < length toks \<Longrightarrow> yield_replies reply toks ! i = reply @ concat (take (Suc i) toks)"
proof (induction toks arbitrary: reply i)
  case Nil
  then show ?case by simp
next
  case (Cons t toks)
  then show ?case by (cases i) simp_all
qed

lemma fold_queue_put: "fold queue_put ts q = q @ ts"
  by (induction ts arbitrary: q) (simp_all add: queue_put_def)

lemma Iteratorize_generate:
  assumes "completion_request env self p state = Inr (m, args)"
    and "K \<le> length (create_completion m args)"
    and "\<forall>k<K. \<not> stop k"
    and "K < length (create_completion m args) \<longrightarrow> stop K"
    and "\<forall>c \<in> set (take K (create_completion m args)). choices c \<noteq> []"
  shows "Iteratorize (\<lambda>callback q. generate env self p state callback stop q)
           = map text_of (take K (create_completion m args))"
  using generate_consumed [OF assms, of "Some queue_put" "[]"]
  by (simp add: Iteratorize_def run_callback_def fold_queue_put)

text \<open>
  Claim C7. The wrapper yields as many items as \<^verbatim>\<open>Iteratorize\<close> hands out tokens; item
  \<open>i\<close> (from 0) is the concatenation of the first \<open>i + 1\<close> tokens; every item is a prefix
  of the next and no longer than it. The tokens are the texts \<^verbatim>\<open>generate\<close> passed to the
  callback: for a request that reaches the engine, the texts of the chunks consumed.
\<close>

theorem generate_with_streaming_cumulative:
  "length (generate_with_streaming env self p state stop)
     = length (Iteratorize (\<lambda>callback q. generate env self p state callback stop q))
   \<and> (\<forall>i < length (generate_with_streaming env self p state stop).
         generate_with_streaming env self p state stop ! i
           = concat (take (Suc i)
               (Iteratorize (\<lambda>callback q. generate env self p state callback stop q))))
   \<and> (\<forall>i. Suc i < length (generate_with_streaming env self p state stop) \<longrightarrow>
         prefix (generate_with_streaming env self p state stop ! i)
                (generate_with_streaming env self p state stop ! Suc i)
       \<and> length (generate_with_streaming env self p state stop ! i)
           \<le> length (generate_with_streaming env self p state stop ! Suc i))
   \<and> (\<forall>m args K. completion_request env self p state = Inr (m, args)
         \<and> K \<le> length (create_completion m args) \<and> (\<forall>k<K. \<not> stop k)
         \<and> (K < length (create_completion m args) \<longrightarrow> stop K)
         \<and> (\<forall>c \<in> set (take K (create_completion m args)). choices c \<noteq> []) \<longrightarrow>
         Iteratorize (\<lambda>callback q. generate env self p state callback stop q)
           = map text_of (take K (create_completion m args)))"
proof -
  let ?toks = "Iteratorize (\<lambda>callback q. generate env self p state callback stop q)"
  let ?items = "generate_with_streaming env self p state stop"
  have items: "?items = yield_replies [] ?toks"
    by (simp add: generate_with_streaming_def)
  have len: "length ?items = length ?toks"
    by (simp add: items yield_replies_length)
  have nth: "\<forall>i < length ?items. ?items ! i = concat (take (Suc i) ?toks)"
    by (simp add: items yield_replies_length yield_replies_nth)
  have mono: "\<forall>i. Suc i < length ?items \<longrightarrow>
      prefix (?items ! i) (?items ! Suc i) \<and> length (?items ! i) \<le> length (?items ! Suc i)"
  proof (intro allI impI)
    fix i
    assume i: "Suc i < length ?items"
    then have "Suc i < length ?toks" using len by simp
    then have "take (Suc (Suc i)) ?toks = take (Suc i) ?toks @ [?toks ! Suc i]"
      by (simp add: take_Suc_conv_app_nth)
    then have "?items ! Suc i = ?items ! i @ (?toks ! Suc i)"
      using nth i by simp
    then show "prefix (?items ! i) (?items ! Suc i)
        \<and> length (?items ! i) \<le> length (?items ! Suc i)"
      by simp
  qed
  have chunks: "\<forall>m args K. completion_request env self p state = Inr (m, args)
         \<and> K \<le> length (create_completion m args) \<and> (\<forall>k<K. \<not> stop k)
         \<and> (K < length (create_completion m args) \<longrightarrow> stop K)
         \<and> (\<forall>c \<in> set (take K (create_completion m args)). choices c \<noteq> []) \<longrightarrow>
         ?toks = map text_of (take K (create_completion m args))"
    using Iteratorize_generate by blast
  from len nth mono chunks show ?thesis by blast
qed

lemma list_of_three: "length xs = 3 \<Longrightarrow> xs = [xs ! 0, xs ! 1, xs ! 2]"
  by (auto simp add: length_Suc_conv numeral_3_eq_3)

theorem generate_with_streaming_cumulative_witness:
  "generate_with_streaming sample_env sample_handle (Str ''hello'') (sample_state False 4)
       (stop_after 3)
     = [''e'', ''el'', ''ell'']
   \<and> Iteratorize (\<lambda>callback q. generate sample_env sample_handle (Str ''hello'')
       (sample_state False 4) callback (stop_after 3) q) = [''e'', ''l'', ''l'']"
proof -
  let ?toks = "Iteratorize (\<lambda>callback q. generate sample_env sample_handle (Str ''hello'')
       (sample_state False 4) callback (stop_after 3) q)"
  let ?items = "generate_with_streaming sample_env sample_handle (Str ''hello'')
       (sample_state False 4) (stop_after 3)"
  note inst = generate_with_streaming_cumulative
    [of sample_env sample_handle "Str ''hello''" "sample_state False 4" "stop_after 3"]
  obtain a where a:
    "completion_request sample_env sample_handle (Str ''hello'') (sample_state False 4)
       = Inr (sample_llama, a)"
    and cs: "create_completion sample_llama a = map echo_chunk ''ello''"
    using sample_request [of False] by blast
  have "(3::nat) \<le> length (create_completion sample_llama a) \<and> (\<forall>k<3. \<not> stop_after 3 k)
      \<and> (3 < length (create_completion sample_llama a) \<longrightarrow> stop_after 3 3)
      \<and> (\<forall>c \<in> set (take 3 (create_completion sample_llama a)). choices c \<noteq> [])"
    by (simp add: cs stop_after_def text_of_echo_chunk)
  with a inst have "?toks = map text_of (take 3 (create_completion sample_llama a))"
    by blast
  then have toks: "?toks = [''e'', ''l'', ''l'']"
    by (simp add: cs text_of_echo_chunk)
  have len: "length ?items = 3" using inst toks by simp
  have "?items ! 0 = ''e''" "?items ! 1 = ''el''" "?items ! 2 = ''ell''"
    using inst toks len by simp_all
  then have "[?items ! 0, ?items ! 1, ?items ! 2] = [''e'', ''el'', ''ell'']"
    by simp
  with list_of_three [OF len] have "?items = [''e'', ''el'', ''ell'']"
    by (rule trans)
  with toks show ?thesis by simp
qed

subsection \<open>End-of-sequence suppression\<close>

text \<open>
  On an engine that decodes as the specification describes, the end-of-sequence
  processor keeps the stream running to \<^verbatim>\<open>max_tokens\<close>.
\<close>

lemma run_processors_ban:
  "0 \<le> eos \<Longrightarrow> nat eos < length logits \<Longrightarrow>
     run_processors (Some (LogitsProcessorList lib [ban_eos_logits_processor eos])) ids logits
       = Inr (logits[nat eos := NegInf])"
  by (simp add: run_processors_def ban_eos_logits_processor_def py_index_def)

lemma decode_stream_never_stops:
  assumes s: "never_samples_banned d" and o: "offers_other_token d"
  shows "length (decode_stream d
           (Some (LogitsProcessorList lib [ban_eos_logits_processor (eos_id d)])) n ids) = n
       \<and> (\<forall>c \<in> set (decode_stream d
           (Some (LogitsProcessorList lib [ban_eos_logits_processor (eos_id d)])) n ids).
            choices c \<noteq> [])"
proof (induction n arbitrary: ids)
  case 0
  show ?case by simp
next
  case (Suc n)
  let ?l = "eval_logits d ids"
  let ?b = "?l[nat (eos_id d) := NegInf]"
  from o have e: "0 \<le> eos_id d" "nat (eos_id d) < length ?l"
    and "\<exists>i < length ?l. i \<noteq> nat (eos_id d) \<and> ?l ! i \<noteq> NegInf"
    by (simp_all add: offers_other_token_def)
  then obtain i where "i < length ?l" "i \<noteq> nat (eos_id d)" "?l ! i \<noteq> NegInf" by blast
  then have ex: "\<exists>i < length ?b. ?b ! i \<noteq> NegInf" by (intro exI [of _ i]) simp
  from s have "(\<exists>i < length ?b. ?b ! i \<noteq> NegInf) \<longrightarrow>
        0 \<le> sample_token d ?b \<and> nat (sample_token d ?b) < length ?b
        \<and> ?b ! nat (sample_token d ?b) \<noteq> NegInf"
    unfolding never_samples_banned_def by (rule spec)
  with ex have t: "0 \<le> sample_token d ?b" "nat (sample_token d ?b) < length ?b"
    "?b ! nat (sample_token d ?b) \<noteq> NegInf"
    by blast+
  have "?b ! nat (eos_id d) = NegInf" using e by simp
  with t have "sample_token d ?b \<noteq> eos_id d" by auto
  with Suc [of "ids @ [sample_token d ?b]"] e show ?case
    by (simp add: run_processors_ban Let_def)
qed

lemma engine_never_stops_early:
  assumes req: "completion_request env self p state = Inr (m, args)"
    and ban: "st_ban_eos_token state"
    and eng: "create_completion m = engine_completion d"
    and eos: "eos_id d = token_eos m"
    and smp: "never_samples_banned d"
    and net: "offers_other_token d"
  shows "length (create_completion m args) = nat (st_max_new_tokens state)
       \<and> (\<forall>c \<in> set (create_completion m args). choices c \<noteq> [])"
proof -
  from completion_request_logits_processor [OF req] ban eos
  obtain lib where "logits_processor args
      = Some (LogitsProcessorList lib [ban_eos_logits_processor (eos_id d)])"
    by simp
  then show ?thesis
    using decode_stream_never_stops [OF smp net, of lib "nat (max_tokens args)"
        "prompt_tokens d (prompt args)"]
      completion_request_max_tokens [OF req] eng
    by (simp add: engine_completion_def)
qed

text \<open>
  Claim C6. Every call of \<^verbatim>\<open>generate\<close> that reaches the engine consumes the stream the
  engine returns for the arguments of the request. If \<^verbatim>\<open>ban_eos_token\<close> is set, the
  \<^verbatim>\<open>logits_processor\<close> argument is a list holding one processor, the end-of-sequence
  processor for the model's own end-of-sequence token, and that processor, for every
  token ids and every logits vector the token indexes, returns the vector with negative
  infinity at that index; if the flag is not set, the argument is \<^verbatim>\<open>None\<close>. With the flag
  set, on every engine that decodes as the specification describes (its sampler never
  picks a token with logit negative infinity while another is possible, and the network
  always offers another token), the stream has exactly \<^verbatim>\<open>max_new_tokens\<close> chunks: the model
  never stops by emitting end-of-sequence, and \<^verbatim>\<open>generate\<close>, when not cancelled, returns
  the text of all of them.
\<close>

theorem generate_ban_eos:
  assumes "completion_request env self p state = Inr (m, args)"
  shows "generate env self p state callback stop s
           = generate_loop stop callback 0 (create_completion m args) [] s
       \<and> (st_ban_eos_token state \<longrightarrow>
            (\<exists>lib. logits_processor args
                = Some (LogitsProcessorList lib [ban_eos_logits_processor (token_eos m)]))
          \<and> (\<forall>input_ids logits st j.
                py_index (length (st logits)) (token_eos m) = Inr j \<longrightarrow>
                  snd (ban_eos_logits_processor (token_eos m) input_ids logits st) = Inr logits
                \<and> fst (ban_eos_logits_processor (token_eos m) input_ids logits st) logits ! j
                    = NegInf))
       \<and> (\<not> st_ban_eos_token state \<longrightarrow> logits_processor args = None)
       \<and> (\<forall>d. st_ban_eos_token state \<and> create_completion m = engine_completion d
              \<and> eos_id d = token_eos m \<and> never_samples_banned d \<and> offers_other_token d \<longrightarrow>
            length (create_completion m args) = nat (st_max_new_tokens state)
          \<and> ((\<forall>i. \<not> stop i) \<longrightarrow>
               generate env self p state callback stop s
                 = (run_callback callback (map text_of (create_completion m args)) s,
                    Inr (concat (map text_of (create_completion m args))))))"
proof (intro conjI)
  show "generate env self p state callback stop s
           = generate_loop stop callback 0 (create_completion m args) [] s"
    by (rule generate_reaches_engine [OF assms])
  show "st_ban_eos_token state \<longrightarrow>
            (\<exists>lib. logits_processor args
                = Some (LogitsProcessorList lib [ban_eos_logits_processor (token_eos m)]))
          \<and> (\<forall>input_ids logits st j.
                py_index (length (st logits)) (token_eos m) = Inr j \<longrightarrow>
                  snd (ban_eos_logits_processor (token_eos m) input_ids logits st) = Inr logits
                \<and> fst (ban_eos_logits_processor (token_eos m) input_ids logits st) logits ! j
                    = NegInf)"
    using completion_request_logits_processor [OF assms]
    by (auto simp add: ban_eos_logits_processor_def dest: py_index_range)
  show "\<not> st_ban_eos_token state \<longrightarrow> logits_processor args = None"
    using completion_request_logits_processor [OF assms] by simp
  show "\<forall>d. st_ban_eos_token state \<and> create_completion m = engine_completion d
              \<and> eos_id d = token_eos m \<and> never_samples_banned d \<and> offers_other_token d \<longrightarrow>
            length (create_completion m args) = nat (st_max_new_tokens state)
          \<and> ((\<forall>i. \<not> stop i) \<longrightarrow>
               generate env self p state callback stop s
                 = (run_callback callback (map text_of (create_completion m args)) s,
                    Inr (concat (map text_of (create_completion m args)))))"
  proof (intro allI impI)
    fix d
    assume h: "st_ban_eos_token state \<and> create_completion m = engine_completion d
              \<and> eos_id d = token_eos m \<and> never_samples_banned d \<and> offers_other_token d"
    then have full: "length (create_completion m args) = nat (st_max_new_tokens state)
        \<and> (\<forall>c \<in> set (create_completion m args). choices c \<noteq> [])"
      using engine_never_stops_early [OF assms, of d] by blast
    have "(\<forall>i. \<not> stop i) \<longrightarrow>
               generate env self p state callback stop s
                 = (run_callback callback (map text_of (create_completion m args)) s,
                    Inr (concat (map text_of (create_completion m args))))"
    proof
      assume "\<forall>i. \<not> stop i"
      then show "generate env self p state callback stop s
                 = (run_callback callback (map text_of (create_completion m args)) s,
                    Inr (concat (map text_of (create_completion m args))))"
        using generate_consumed
          [OF assms, of "length (create_completion m args)" stop callback s] full
        by simp
    qed
    with full show "length (create_completion m args) = nat (st_max_new_tokens state)
          \<and> ((\<forall>i. \<not> stop i) \<longrightarrow>
               generate env self p state callback stop s
                 = (run_callback callback (map text_of (create_completion m args)) s,
                    Inr (concat (map text_of (create_completion m args)))))"
      by blast
  qed
qed

text \<open>
  The stub engine: its sampler never picks a banned token, its network always offers
  another one, and without the processor it stops before its first chunk.
\<close>

lemma stub_sample_respects:
  "\<exists>i < length logits. logits ! i \<noteq> NegInf \<Longrightarrow>
     0 \<le> stub_sample logits \<and> nat (stub_sample logits) < length logits
     \<and> logits ! nat (stub_sample logits) \<noteq> NegInf"
proof -
  assume "\<exists>i < length logits. logits ! i \<noteq> NegInf"
  then obtain i where i: "i < length logits" "logits ! i \<noteq> NegInf" by blast
  let ?f = "filter (\<lambda>i. logits ! i \<noteq> NegInf) (rev [0..<length logits])"
  from i have "i \<in> set ?f" by simp
  then obtain j rest where f: "?f = j # rest" by (cases ?f) auto
  then have "j \<in> set ?f" by simp
  then have "j < length logits" "logits ! j \<noteq> NegInf" by simp_all
  with f show ?thesis by (simp add: stub_sample_def)
qed

lemma stub_decoder_ok: "never_samples_banned stub_decoder \<and> offers_other_token stub_decoder"
proof -
  have "never_samples_banned stub_decoder"
    unfolding never_samples_banned_def using stub_sample_respects
    by (simp add: stub_decoder_def)
  moreover have "offers_other_token stub_decoder"
    unfolding offers_other_token_def
    by (auto simp add: stub_decoder_def intro!: exI [of _ 0])
  ultimately show ?thesis by simp
qed

lemmas stub_defs = stub_handle_def stub_llama_def

lemma stub_request:
  "\<exists>a. completion_request sample_env stub_handle (Str ''hello'') (sample_state ban 4)
          = Inr (stub_llama, a)"
  by (simp add: sample_defs stub_defs char_of_def bit_Suc_0_iff)

lemma stub_stops_unbanned: "0 < n \<Longrightarrow> decode_stream stub_decoder None n ids = []"
  by (cases n) (simp_all add: run_processors_def stub_decoder_def stub_sample_def)

theorem generate_ban_eos_witness:
  "(\<exists>args. completion_request sample_env stub_handle (Str ''hello'') (sample_state True 4)
             = Inr (stub_llama, args)
          \<and> logits_processor args
             = Some (LogitsProcessorList Pkg_llama_cpp_cuda [ban_eos_logits_processor 2])
          \<and> length (create_completion stub_llama args) = 200)
   \<and> length (fst (generate sample_env stub_handle (Str ''hello'') (sample_state True 4)
        (Some queue_put) never_stop [])) = 200
   \<and> generate sample_env stub_handle (Str ''hello'') (sample_state False 4)
        (Some queue_put) never_stop [] = ([], Inr [])
   \<and> fst (ban_eos_logits_processor 2 [5, 7] 0 (\<lambda>r. [Finite 1, Finite 2, Finite 5])) 0 ! 2
       = NegInf"
proof -
  obtain a where a:
    "completion_request sample_env stub_handle (Str ''hello'') (sample_state True 4)
       = Inr (stub_llama, a)"
    using stub_request [of True] by blast
  obtain b where b:
    "completion_request sample_env stub_handle (Str ''hello'') (sample_state False 4)
       = Inr (stub_llama, b)"
    using stub_request [of False] by blast
  note A = generate_ban_eos [OF a, of "Some queue_put" never_stop "[]"]
  note B = generate_ban_eos [OF b, of "Some queue_put" never_stop "[]"]
  have eos: "token_eos stub_llama = 2" "eos_id stub_decoder = 2"
    "create_completion stub_llama = engine_completion stub_decoder"
    by (simp_all add: stub_llama_def stub_decoder_def)
  have lib: "llama_cpp_lib (modules sample_env) (args_cpu sample_env) (is_gguf sample_env) None
     = Some Pkg_llama_cpp_cuda" by (simp add: sample_defs)
  have ban: "st_ban_eos_token (sample_state True 4)" "\<not> st_ban_eos_token (sample_state False 4)"
    "st_max_new_tokens (sample_state True 4) = 200"
    "st_max_new_tokens (sample_state False 4) = 200"
    by (simp_all add: sample_state_def)
  have 1: "logits_processor a
             = Some (LogitsProcessorList Pkg_llama_cpp_cuda [ban_eos_logits_processor 2])"
    using completion_request_logits_processor [OF a] ban lib eos by simp
  from A have "\<forall>d. st_ban_eos_token (sample_state True 4)
       \<and> create_completion stub_llama = engine_completion d
       \<and> eos_id d = token_eos stub_llama \<and> never_samples_banned d \<and> offers_other_token d \<longrightarrow>
         length (create_completion stub_llama a) = nat (st_max_new_tokens (sample_state True 4))
       \<and> ((\<forall>i. \<not> never_stop i) \<longrightarrow>
            generate sample_env stub_handle (Str ''hello'') (sample_state True 4)
                (Some queue_put) never_stop []
              = (run_callback (Some queue_put) (map text_of (create_completion stub_llama a)) [],
                 Inr (concat (map text_of (create_completion stub_llama a)))))"
    by blast
  then have 2: "length (create_completion stub_llama a) = 200"
    and g: "generate sample_env stub_handle (Str ''hello'') (sample_state True 4)
                (Some queue_put) never_stop []
              = (run_callback (Some queue_put) (map text_of (create_completion stub_llama a)) [],
                 Inr (concat (map text_of (create_completion stub_llama a))))"
    using stub_decoder_ok eos ban by (auto simp add: never_stop_def)
  have 3: "length (fst (generate sample_env stub_handle (Str ''hello'') (sample_state True 4)
        (Some queue_put) never_stop [])) = 200"
    using g 2 by (simp add: run_callback_def fold_queue_put)
  have "logits_processor b = None" using B ban by simp
  moreover have "max_tokens b = 200"
    using completion_request_max_tokens [OF b] ban by simp
  ultimately have "create_completion stub_llama b = []"
    by (simp add: eos engine_completion_def stub_stops_unbanned)
  with B have 4: "generate sample_env stub_handle (Str ''hello'') (sample_state False 4)
        (Some queue_put) never_stop [] = ([], Inr [])"
    by simp
  have 5: "fst (ban_eos_logits_processor 2 [5, 7] 0 (\<lambda>r. [Finite 1, Finite 2, Finite 5])) 0 ! 2
       = NegInf"
    by (simp add: ban_eos_logits_processor_def py_index_def)
  from a 1 2 3 4 5 show ?thesis by blast
qed

subsection \<open>The package of the logits processor class\<close>

text \<open>
  Claim C10. Called without a model file, \<^verbatim>\<open>llama_cpp_lib\<close> takes the model for a GGUF
  model: it returns the CUDA build when that was imported and the CPU flag is not set,
  and the plain CPU build otherwise, for every detector. After the module has been
  loaded this is a package of the modern family. Every call of \<^verbatim>\<open>generate\<close> makes this
  lookup first (were the result \<^verbatim>\<open>None\<close>, the call would raise \<^verbatim>\<open>AttributeError\<close>), and a
  call that reaches the engine consumes the stream of a request whose
  \<^verbatim>\<open>LogitsProcessorList\<close>, when it has one, is of that package, whichever package built
  the model of the handle.
\<close>

theorem generate_uses_modern_module:
  "llama_cpp_lib g cpu gguf None = Some (if cpu \<or> llama_cpp_cuda g = None then llama_cpp g
                                         else the (llama_cpp_cuda g))
   \<and> (\<exists>lib. llama_cpp_lib (load_modules rt) cpu gguf None = Some lib \<and> family_of lib = Modern)
   \<and> (\<forall>m args lib procs.
         modules env = load_modules rt
         \<and> completion_request env self p state = Inr (m, args)
         \<and> logits_processor args = Some (LogitsProcessorList lib procs) \<longrightarrow>
         family_of lib = Modern
         \<and> llama_cpp_lib (modules env) (args_cpu env) (is_gguf env) None = Some lib)
   \<and> (\<forall>m args.
         modules env = load_modules rt
         \<and> completion_request env self p state = Inr (m, args) \<longrightarrow>
         (\<exists>lib. llama_cpp_lib (modules env) (args_cpu env) (is_gguf env) None = Some lib
            \<and> family_of lib = Modern
            \<and> logits_processor args =
                (if st_ban_eos_token state
                 then Some (LogitsProcessorList lib [ban_eos_logits_processor (token_eos m)])
                 else None)
            \<and> generate env self p state callback stop s
                = generate_loop stop callback 0 (create_completion m args) [] s))
   \<and> (llama_cpp_lib (modules env) (args_cpu env) (is_gguf env) None = None \<longrightarrow>
         generate env self p state callback stop s = (s, Inl AttributeError))"
proof -
  have 1: "llama_cpp_lib g cpu gguf None =
      Some (if cpu \<or> llama_cpp_cuda g = None then llama_cpp g else the (llama_cpp_cuda g))"
    by (auto simp add: llama_cpp_lib_def)
  have 3: "\<forall>m args lib procs.
         modules env = load_modules rt
         \<and> completion_request env self p state = Inr (m, args)
         \<and> logits_processor args = Some (LogitsProcessorList lib procs) \<longrightarrow>
         family_of lib = Modern
         \<and> llama_cpp_lib (modules env) (args_cpu env) (is_gguf env) None = Some lib"
  proof (intro allI impI)
    fix m args lib procs
    assume h: "modules env = load_modules rt
         \<and> completion_request env self p state = Inr (m, args)
         \<and> logits_processor args = Some (LogitsProcessorList lib procs)"
    then have l: "llama_cpp_lib (modules env) (args_cpu env) (is_gguf env) None = Some lib"
      using completion_request_lib by blast
    then show "family_of lib = Modern
         \<and> llama_cpp_lib (modules env) (args_cpu env) (is_gguf env) None = Some lib"
      using h llama_cpp_lib_None_modern [of rt "args_cpu env" "is_gguf env"] by auto
  qed
  have 4: "\<forall>m args.
         modules env = load_modules rt
         \<and> completion_request env self p state = Inr (m, args) \<longrightarrow>
         (\<exists>lib. llama_cpp_lib (modules env) (args_cpu env) (is_gguf env) None = Some lib
            \<and> family_of lib = Modern
            \<and> logits_processor args =
                (if st_ban_eos_token state
                 then Some (LogitsProcessorList lib [ban_eos_logits_processor (token_eos m)])
                 else None)
            \<and> generate env self p state callback stop s
                = generate_loop stop callback 0 (create_completion m args) [] s)"
  proof (intro allI impI)
    fix m args
    assume h: "modules env = load_modules rt
         \<and> completion_request env self p state = Inr (m, args)"
    then obtain lib where
      l: "llama_cpp_lib (modules env) (args_cpu env) (is_gguf env) None = Some lib"
      and f: "family_of lib = Modern"
      using llama_cpp_lib_None_modern [of rt "args_cpu env" "is_gguf env"] by auto
    from h have r: "completion_request env self p state = Inr (m, args)" by simp
    show "\<exists>lib. llama_cpp_lib (modules env) (args_cpu env) (is_gguf env) None = Some lib
            \<and> family_of lib = Modern
            \<and> logits_processor args =
                (if st_ban_eos_token state
                 then Some (LogitsProcessorList lib [ban_eos_logits_processor (token_eos m)])
                 else None)
            \<and> generate env self p state callback stop s
                = generate_loop stop callback 0 (create_completion m args) [] s"
      using l f completion_request_logits_processor [OF r] generate_reaches_engine [OF r]
      by (intro exI [of _ lib]) simp
  qed
  have 5: "llama_cpp_lib (modules env) (args_cpu env) (is_gguf env) None = None \<longrightarrow>
         generate env self p state callback stop s = (s, Inl AttributeError)"
    by (simp add: generate_def completion_request_def)
  from 1 3 4 5 llama_cpp_lib_None_modern [of rt cpu gguf] show ?thesis by blast
qed

theorem generate_uses_modern_module_witness:
  "built_by sample_llama = Pkg_llama_cpp_ggml_cuda
   \<and> family_of (built_by sample_llama) = Legacy
   \<and> (\<exists>args. completion_request sample_env sample_handle (Str ''hello'') (sample_state True 4)
               = Inr (sample_llama, args)
            \<and> logits_processor args
               = Some (LogitsProcessorList Pkg_llama_cpp_cuda [ban_eos_logits_processor 2])
            \<and> generate sample_env sample_handle (Str ''hello'') (sample_state True 4)
                 (Some queue_put) never_stop []
               = generate_loop never_stop (Some queue_put) 0
                   (create_completion sample_llama args) [] [])
   \<and> generate sample_env sample_handle (Str ''hello'') (sample_state True 4)
        (Some queue_put) never_stop [] = ([''e'', ''l'', ''l'', ''o''], Inr ''ello'')
   \<and> family_of Pkg_llama_cpp_cuda = Modern"
proof -
  obtain a where a:
    "completion_request sample_env sample_handle (Str ''hello'') (sample_state True 4)
       = Inr (sample_llama, a)"
    and cs: "create_completion sample_llama a = map echo_chunk ''ello''"
    using sample_request [of True] by blast
  have m: "modules sample_env = load_modules full_runtime" by (simp add: sample_env_def)
  have lib: "llama_cpp_lib (modules sample_env) (args_cpu sample_env) (is_gguf sample_env) None
     = Some Pkg_llama_cpp_cuda" by (simp add: sample_defs)
  have ban: "st_ban_eos_token (sample_state True 4)" "token_eos sample_llama = 2"
    by (simp_all add: sample_state_def sample_llama_def)
  from generate_uses_modern_module
      [of _ _ _ full_runtime sample_env sample_handle "Str ''hello''" "sample_state True 4"
          "Some queue_put" never_stop "[]"]
  have "\<forall>m args.
         modules sample_env = load_modules full_runtime
         \<and> completion_request sample_env sample_handle (Str ''hello'') (sample_state True 4)
             = Inr (m, args) \<longrightarrow>
         (\<exists>lib. llama_cpp_lib (modules sample_env) (args_cpu sample_env) (is_gguf sample_env)
                  None = Some lib
            \<and> family_of lib = Modern
            \<and> logits_processor args =
                (if st_ban_eos_token (sample_state True 4)
                 then Some (LogitsProcessorList lib [ban_eos_logits_processor (token_eos m)])
                 else None)
            \<and> generate sample_env sample_handle (Str ''hello'') (sample_state True 4)
                  (Some queue_put) never_stop []
                = generate_loop never_stop (Some queue_put) 0 (create_completion m args) [] [])"
    by blast
  with m a lib ban have
    lp: "logits_processor a
      = Some (LogitsProcessorList Pkg_llama_cpp_cuda [ban_eos_logits_processor 2])"
    and f: "family_of Pkg_llama_cpp_cuda = Modern"
    and g: "generate sample_env sample_handle (Str ''hello'') (sample_state True 4)
                  (Some queue_put) never_stop []
                = generate_loop never_stop (Some queue_put) 0
                    (create_completion sample_llama a) [] []"
    by auto
  from g have v: "generate sample_env sample_handle (Str ''hello'') (sample_state True 4)
        (Some queue_put) never_stop [] = ([''e'', ''l'', ''l'', ''o''], Inr ''ello'')"
    by (simp add: cs never_stop_def echo_chunk_def chunk_text_def queue_put_def)
  from a lp g v f show ?thesis by (auto simp add: sample_llama_def)
qed

subsection \<open>The model handle\<close>

text \<open>
  Claim C8, as amended. Every call of \<^verbatim>\<open>__del__\<close> on a handle whose model is set makes
  one call of the engine object's \<^verbatim>\<open>__del__\<close> and changes nothing else: \<open>n\<close> calls in a
  row succeed and leave the handle as it was but for \<open>n\<close> more teardown calls on its
  engine object. The field \<^verbatim>\<open>initialized\<close> is not read and does not change.
\<close>

theorem del_forwards_every_call:
  "model self = Some m \<Longrightarrow>
     del_times n self = Inr (self\<lparr>model := Some (m\<lparr>del_calls := del_calls m + n\<rparr>)\<rparr>)
     \<and> teardown_count (self\<lparr>model := Some (m\<lparr>del_calls := del_calls m + n\<rparr>)\<rparr>)
         = teardown_count self + n"
proof -
  assume m: "model self = Some m"
  have "del_times n self = Inr (self\<lparr>model := Some (m\<lparr>del_calls := del_calls m + n\<rparr>)\<rparr>)"
    using m
  proof (induction n arbitrary: self m)
    case 0
    then show ?case by simp
  next
    case (Suc n)
    let ?self1 = "self\<lparr>model := Some (llama_del m)\<rparr>"
    have d: "LlamaCppModel_del self = Inr ?self1"
      using Suc.prems by (simp add: LlamaCppModel_del_def get_model_def bind_err_def)
    have "model ?self1 = Some (llama_del m)" by simp
    from Suc.IH [OF this] d show ?case
      by (simp add: bind_err_def llama_del_def)
  qed
  with m show ?thesis by (simp add: teardown_count_def)
qed

theorem del_forwards_every_call_witness:
  "model sample_handle = Some sample_llama
   \<and> del_times 1 sample_handle
       = Inr (sample_handle\<lparr>model := Some (sample_llama\<lparr>del_calls := 1\<rparr>)\<rparr>)
   \<and> teardown_count sample_handle = 0
   \<and> teardown_count (sample_handle\<lparr>model := Some (sample_llama\<lparr>del_calls := 1\<rparr>)\<rparr>) = 1"
  using del_forwards_every_call [of sample_handle sample_llama 1]
  by (simp add: sample_handle_def LlamaCppModel_init_def teardown_count_def sample_llama_def)

text \<open>
  Claim C8, as stated, fails: nothing prevents a second release. Two calls of
  \<^verbatim>\<open>__del__\<close> on one handle, a manual one and the one at the end of the handle's life,
  tear the engine object down twice.
\<close>

theorem double_release_counterexample:
  "teardown_count sample_handle = 0
   \<and> map_sum id teardown_count (del_times 2 sample_handle) = Inr 2"
  by (simp add: sample_handle_def LlamaCppModel_init_def teardown_count_def sample_llama_def
      LlamaCppModel_del_def get_model_def bind_err_def llama_del_def numeral_2_eq_2)

end
